theory Spec2Isabelle
  imports
    Main
    "HOL-Library.Word"
    "HOL-Library.Char_ord"
    "HOL-Library.List_Lexorder"
    "HOL-Library.Sublist"
begin

unbundle bit_operations_syntax

section \<open>The Relay agent core\<close>

text \<open>
  A shallow embedding of \<^verbatim>\<open>relay/relay.go\<close> (catalog, change hash, refresh
  handshake), \<^verbatim>\<open>relay/worker/output_parser.go\<close> (the stdout post-processor) and
  the worker's \<^verbatim>\<open>executeCommand\<close>.

  Conventions. A Go \<^verbatim>\<open>string\<close> or \<^verbatim>\<open>[]byte\<close> is a \<^typ>\<open>string\<close> (a list of
  bytes). A pointer receiver that is mutated becomes a record that is passed in and
  returned. The process log (logrus) and the messages published on the broker link are
  effects; they are kept as lists inside the relay record, newest entry last.
\<close>

subsection \<open>Logging\<close>

datatype Level = Debug | Info | Warn | Error

datatype LogArg = ArgS string | ArgD int

text \<open>One call \<^verbatim>\<open>log.<Level>f(format, args...)\<close>; the format is not expanded.\<close>

record LogEntry =
  level :: Level
  format :: string
  args :: "LogArg list"

definition logf :: "Level \<Rightarrow> string \<Rightarrow> LogArg list \<Rightarrow> LogEntry" where
  "logf l f as = \<lparr>level = l, format = f, args = as\<rparr>"

subsection \<open>hash/fnv: the 64-bit FNV-1 hasher of the Go standard library\<close>

text \<open>
  \<^verbatim>\<open>fnv.New64()\<close> returns a hasher whose state is the 64-bit offset basis.
  \<^verbatim>\<open>Write(p)\<close> folds the bytes of \<^verbatim>\<open>p\<close> into the state (multiply by the prime, then
  xor the byte). \<^verbatim>\<open>Sum(b)\<close> appends the eight big-endian bytes of the current state to
  \<^verbatim>\<open>b\<close> and returns the resulting slice; it does not change the state.
  \<^verbatim>\<open>Sum64()\<close> reads the state. Every method is written in state-passing style: it
  returns the hasher after the call together with the method's result.
\<close>

type_synonym sum64 = "64 word"

definition offset64 :: "64 word" where
  "offset64 = 14695981039346656037"

definition prime64 :: "64 word" where
  "prime64 = 1099511628211"

definition New64 :: sum64 where
  "New64 = offset64"

definition bytes :: "string \<Rightarrow> 8 word list" where
  "bytes s = map of_char s"

fun Write :: "sum64 \<Rightarrow> 8 word list \<Rightarrow> sum64 \<times> nat" where
  "Write h p = (foldl (\<lambda>hash c. (hash * prime64) XOR ucast c) h p, length p)"

fun Sum_fnv :: "sum64 \<Rightarrow> 8 word list \<Rightarrow> sum64 \<times> 8 word list" where
  "Sum_fnv h b =
     (h, b @ [ucast (drop_bit 56 h), ucast (drop_bit 48 h), ucast (drop_bit 40 h),
              ucast (drop_bit 32 h), ucast (drop_bit 24 h), ucast (drop_bit 16 h),
              ucast (drop_bit 8 h), ucast h])"

definition Sum64 :: "sum64 \<Rightarrow> 64 word" where
  "Sum64 h = h"

subsection \<open>Configuration and bundles\<close>

text \<open>
  Modelled from the spec: the packages \<^verbatim>\<open>config\<close> and \<^verbatim>\<open>messages\<close> are not part of
  the sources at hand. A bundle is an immutable descriptor with a name and a kind
  (native or container); \<^verbatim>\<open>IsDocker()\<close> tests the kind. Of the configuration only the
  relay identity and the concurrency bound are read here.
\<close>

datatype BundleKind = Native | Container

record Bundle =
  name :: string
  kind :: BundleKind

definition IsDocker :: "Bundle \<Rightarrow> bool" where
  "IsDocker b = (kind b = Container)"

record Config =
  ID :: string
  MaxConcurrent :: int

text \<open>
  A Go \<^verbatim>\<open>map[string]*config.Bundle\<close> is an association list. The order of the list
  stands for the order in which a \<^verbatim>\<open>range\<close> loop visits the keys, which Go leaves
  unspecified; every theorem below holds for every list, hence for every order.
\<close>

type_synonym BundleMap = "(string \<times> Bundle) list"

subsection \<open>Messages on the broker link\<close>

text \<open>
  Modelled from the spec: \<^verbatim>\<open>messages.ExecutionRequest\<close> and
  \<^verbatim>\<open>messages.ExecutionResponse\<close> are declared outside the sources at hand. The
  request carries \<^verbatim>\<open>bundleName\<close>, \<^verbatim>\<open>command\<close>, \<^verbatim>\<open>replyTo\<close> and \<^verbatim>\<open>pipelineID\<close>;
  the response carries \<^verbatim>\<open>status\<close>, \<^verbatim>\<open>statusMessage\<close>, \<^verbatim>\<open>template\<close>, \<^verbatim>\<open>isJSON\<close> and
  \<^verbatim>\<open>body\<close>. The body is an \<^verbatim>\<open>interface{}\<close>: unset, a string, a decoded JSON
  value, or a list of maps from strings to lines. A decoded JSON number is either a
  \<^verbatim>\<open>json.Number\<close>, the text of the literal, which is what a decoder with
  \<^verbatim>\<open>UseNumber\<close> produces, or a \<^verbatim>\<open>float64\<close>, written here as a mantissa and a binary
  exponent, which is what a decoder without it produces.
\<close>

record ExecutionRequest =
  bundleName :: string
  Command :: string
  ReplyTo :: string
  pipelineID :: string

definition BundleName :: "ExecutionRequest \<Rightarrow> string" where
  "BundleName req = bundleName req"

definition PipelineID :: "ExecutionRequest \<Rightarrow> string" where
  "PipelineID req = pipelineID req"

datatype JSON =
    JNull
  | JBool bool
  | JNumber string
  | JFloat64 int int
  | JString string
  | JArray "JSON list"
  | JObject "(string \<times> JSON) list"

datatype BodyValue =
    BodyNil
  | BodyString string
  | BodyJSON JSON
  | BodyMaps "(string \<rightharpoonup> string list) list"

record ExecutionResponse =
  Status :: string
  StatusMessage :: string
  Template :: string
  IsJSON :: bool
  Body :: "BodyValue"

text \<open>The zero value \<^verbatim>\<open>&messages.ExecutionResponse{}\<close>.\<close>

definition emptyResponse :: "ExecutionResponse" where
  "emptyResponse =
     \<lparr>Status = [], StatusMessage = [], Template = [], IsJSON = False, Body = BodyNil\<rparr>"

text \<open>
  A published message is the value handed to \<^verbatim>\<open>json.Marshal\<close>; the serialisation
  itself is left symbolic. \<^verbatim>\<open>bus.RelayDiscoveryTopic\<close> is a constant of the broker
  library and stays a constructor of its own.
\<close>

datatype Topic = RelayDiscoveryTopic | TopicName string

datatype BusMessage =
    BundleAnnouncement string "string list"
  | Response "ExecutionResponse"

subsection \<open>The relay\<close>

datatype ControlCommand = RelayStop | RelayRestart | RelayUpdateBundles | RelayUpdateBundlesDone

datatype State = RelayStopped | RelayStarting | RelayUpdatingBundles | RelayReady

text \<open>The \<^verbatim>\<open>iota\<close> numbering, as printed by \<^verbatim>\<open>%d\<close>.\<close>

fun stateCode :: "State \<Rightarrow> int" where
  "stateCode RelayStopped = 0"
| "stateCode RelayStarting = 1"
| "stateCode RelayUpdatingBundles = 2"
| "stateCode RelayReady = 3"

text \<open>
  The fields of \<^verbatim>\<open>Relay\<close> that the modelled operations read or write. \<open>Bus\<close> holds
  the messages published on the link so far and \<open>logged\<close> the log output; \<open>control\<close> is
  the buffer of the control channel (capacity 2), oldest command first.
\<close>

record Relay =
  Config :: Config
  Bus :: "(Topic \<times> BusMessage) list"
  bundles :: BundleMap
  bundlesHash :: "64 word"
  announce :: bool
  hasStarted :: bool
  control :: "ControlCommand list"
  state :: State
  logged :: "LogEntry list"

text \<open>\<^verbatim>\<open>New\<close>: fields that the composite literal leaves out take their zero value.\<close>

definition New :: "Config \<Rightarrow> Relay" where
  "New relayConfig =
     \<lparr>Config = relayConfig, Bus = [], bundles = [], bundlesHash = 0, announce = False,
      hasStarted = False, control = [], state = RelayStopped, logged = []\<rparr>"

definition Publish :: "Topic \<Rightarrow> BusMessage \<Rightarrow> Relay \<Rightarrow> Relay" where
  "Publish topic msg r = r\<lparr>Bus := Bus r @ [(topic, msg)]\<rparr>"

definition logr :: "Level \<Rightarrow> string \<Rightarrow> LogArg list \<Rightarrow> Relay \<Rightarrow> Relay" where
  "logr l f as r = r\<lparr>logged := logged r @ [logf l f as]\<rparr>"

text \<open>
  \<^verbatim>\<open>computeBundleHash\<close>: collect the keys, sort them, create the hasher, call
  \<^verbatim>\<open>h.Sum([]byte(k))\<close> for every key and drop what it returns, then read
  \<^verbatim>\<open>h.Sum64()\<close>.
\<close>

definition computeBundleHash :: "BundleMap \<Rightarrow> 64 word" where
  "computeBundleHash bs =
     (let keys = sort (map fst bs);
          h = foldl (\<lambda>h k. fst (Sum_fnv h (bytes k))) New64 keys
      in Sum64 h)"

definition GetBundle :: "Relay \<Rightarrow> string \<Rightarrow> Bundle option" where
  "GetBundle r nm = map_of (bundles r) nm"

definition UpdateBundleList :: "Relay \<Rightarrow> BundleMap \<Rightarrow> Relay" where
  "UpdateBundleList r bs =
     (let newBundlesHash = computeBundleHash bs
      in if bundlesHash r \<noteq> newBundlesHash
         then r\<lparr>bundles := bs, bundlesHash := newBundlesHash, announce := True\<rparr>
         else r)"

definition BundleNames :: "Relay \<Rightarrow> string list" where
  "BundleNames r = map fst (bundles r)"

text \<open>
  \<^verbatim>\<open>FinishedUpdateBundles\<close>. A send on the control channel blocks while its two
  slots are taken; \<open>None\<close> stands for the blocked sender.
\<close>

definition send :: "ControlCommand \<Rightarrow> Relay \<Rightarrow> Relay option" where
  "send c r = (if length (control r) < 2 then Some (r\<lparr>control := control r @ [c]\<rparr>) else None)"

definition FinishedUpdateBundles :: "Relay \<Rightarrow> (Relay \<times> bool) option" where
  "FinishedUpdateBundles r =
     (if state r \<noteq> RelayUpdatingBundles then Some (r, False)
      else map_option (\<lambda>r'. (r', True)) (send RelayUpdateBundlesDone r))"

definition announceBundles :: "Relay \<Rightarrow> Relay" where
  "announceBundles r =
     Publish RelayDiscoveryTopic (BundleAnnouncement (ID (Config r)) (BundleNames r)) r"

definition logBadState :: "string \<Rightarrow> State \<Rightarrow> Relay \<Rightarrow> Relay" where
  "logBadState nm required r =
     logr Error ''%s requires relay state %d: %d.''
       [ArgS nm, ArgD (stateCode required), ArgD (stateCode (state r))] r"

text \<open>
  \<^verbatim>\<open>handleUpdateBundlesDone\<close>. The state \<^verbatim>\<open>RelayUpdatingBundles\<close> is only entered at
  the end of \<^verbatim>\<open>handleUpdateBundlesCommand\<close>, after a publication on \<^verbatim>\<open>r.Bus\<close>, so the
  link exists whenever the first branch runs.
\<close>

definition handleUpdateBundlesDone :: "Relay \<Rightarrow> Relay" where
  "handleUpdateBundlesDone r =
     (if state r = RelayUpdatingBundles then
        (let r1 = (if announce r then (announceBundles r)\<lparr>announce := False\<rparr> else r);
             r2 = logr Info ''Bundle refresh complete.'' [] r1;
             r3 = (if hasStarted r2 = False
                   then (logr Info ''Relay %s ready.'' [ArgS (ID (Config r2))] r2)\<lparr>hasStarted := True\<rparr>
                   else r2)
         in r3\<lparr>state := RelayReady\<rparr>)
      else logBadState ''handleUpdatesBundleDone'' RelayUpdatingBundles r)"

subsection \<open>strings and regexp: the library calls of the output parser\<close>

definition newline :: char where
  "newline = CHR 0x0A"

text \<open>\<^verbatim>\<open>strings.TrimSuffix(s, suffix)\<close>: drop one trailing copy of the suffix, if any.\<close>

definition TrimSuffix :: "string \<Rightarrow> string \<Rightarrow> string" where
  "TrimSuffix s suf = (if suffix suf s then take (length s - length suf) s else s)"

text \<open>
  \<^verbatim>\<open>strings.Split(s, sep)\<close> for a separator of one byte: the pieces between the
  separators; the empty string gives one empty piece.
\<close>

fun Split :: "string \<Rightarrow> char \<Rightarrow> string list" where
  "Split [] sep = [[]]"
| "Split (c # cs) sep =
     (if c = sep then [] # Split cs sep
      else (case Split cs sep of
              [] \<Rightarrow> [[c]]
            | piece # pieces \<Rightarrow> (c # piece) # pieces))"

text \<open>\<^verbatim>\<open>strings.Join(elems, sep)\<close>.\<close>

fun Join :: "string list \<Rightarrow> string \<Rightarrow> string" where
  "Join [] sep = []"
| "Join [x] sep = x"
| "Join (x # y # ys) sep = x @ sep @ Join (y # ys) sep"

text \<open>\<^verbatim>\<open>strings.Trim(s, cutset)\<close>: strip leading and trailing bytes of the cutset.\<close>

definition Trim :: "string \<Rightarrow> string \<Rightarrow> string" where
  "Trim s cutset =
     rev (dropWhile (\<lambda>c. c \<in> set cutset) (rev (dropWhile (\<lambda>c. c \<in> set cutset) s)))"

text \<open>
  The patterns of \<^verbatim>\<open>outputParsers\<close> have two shapes: \<^verbatim>\<open>^literal\<close> and
  \<^verbatim>\<open>^literal$\<close>. With \<^verbatim>\<open>MustCompilePOSIX\<close> both anchors bind at line boundaries;
  the subjects here are the pieces of a split at newlines, so a line boundary is the
  start or the end of the subject.
\<close>

datatype Regexp = StartsWith string | Exactly string

fun literal :: "Regexp \<Rightarrow> string" where
  "literal (StartsWith p) = p"
| "literal (Exactly p) = p"

fun MatchString :: "Regexp \<Rightarrow> string \<Rightarrow> bool" where
  "MatchString (StartsWith p) s = prefix p s"
| "MatchString (Exactly p) s = (s = p)"

text \<open>The leftmost match as \<^verbatim>\<open>(begin, end)\<close>; it starts at the anchor.\<close>

definition FindStringIndex :: "Regexp \<Rightarrow> string \<Rightarrow> (nat \<times> nat) option" where
  "FindStringIndex re s = (if MatchString re s then Some (0, length (literal re)) else None)"

text \<open>
  \<^verbatim>\<open>re.Split(s, 2)\<close>. The library returns \<^verbatim>\<open>[""]\<close> for an empty subject; otherwise
  it appends the text before the first match unless that match ends at offset 0, and
  then the text after the match unless the match begins at the end of the subject.
\<close>

definition Split2 :: "Regexp \<Rightarrow> string \<Rightarrow> string list" where
  "Split2 re s =
     (if s = [] then [[]]
      else (case FindStringIndex re s of
              None \<Rightarrow> [s]
            | Some (b, e) \<Rightarrow>
                (if e \<noteq> 0 then [take b s] else []) @
                (if b \<noteq> length s then [drop e s] else [])))"

subsection \<open>encoding/json: the decoder\<close>

text \<open>
  The decoder of the standard library is not part of the sources; what it returns is a
  parameter \<open>lib\<close> of the model: from the \<^verbatim>\<open>UseNumber\<close> setting and the input to the
  first JSON value of the input, or \<open>None\<close> when \<^verbatim>\<open>Decode\<close> returns an error. The
  calls the source makes are kept: \<^verbatim>\<open>json.NewDecoder(r)\<close> creates a decoder with
  \<^verbatim>\<open>UseNumber\<close> off, \<^verbatim>\<open>d.UseNumber()\<close> turns it on, \<^verbatim>\<open>d.Decode(&v)\<close> reads a value.
\<close>

type_synonym jsonlib = "bool \<Rightarrow> string \<Rightarrow> JSON option"

record Decoder =
  input :: string
  useNumber :: bool

definition NewDecoder :: "string \<Rightarrow> Decoder" where
  "NewDecoder r = \<lparr>input = r, useNumber = False\<rparr>"

definition UseNumber :: "Decoder \<Rightarrow> Decoder" where
  "UseNumber d = d\<lparr>useNumber := True\<rparr>"

definition Decode :: "jsonlib \<Rightarrow> Decoder \<Rightarrow> JSON option" where
  "Decode lib d = lib (useNumber d) (input d)"

text \<open>
  An integer literal of JSON: an optional minus sign, then either a single zero or a
  digit other than zero followed by digits.
\<close>

definition isDigit :: "char \<Rightarrow> bool" where
  "isDigit c = (c \<in> set ''0123456789'')"

definition digitsOK :: "string \<Rightarrow> bool" where
  "digitsOK ds =
     (case ds of
        [] \<Rightarrow> False
      | c # r \<Rightarrow> if c = CHR ''0'' then r = [] else isDigit c \<and> list_all isDigit r)"

definition isIntegerLiteral :: "string \<Rightarrow> bool" where
  "isIntegerLiteral s =
     (case s of
        [] \<Rightarrow> False
      | c # r \<Rightarrow> if c = CHR ''-'' then digitsOK r else digitsOK s)"

subsection \<open>The output parser\<close>

text \<open>
  Modelled from the spec: \<^verbatim>\<open>api.ExecResult\<close> comes from the circuit driver; the
  parser reads its \<^verbatim>\<open>Stdout\<close> and \<^verbatim>\<open>Stderr\<close>.
\<close>

record ExecResult =
  Stdout :: string
  Stderr :: string

text \<open>
  A callback receives the pieces of the line, the response and the request; it may
  change the response and write to the log.
\<close>

type_synonym outputParser =
  "string list \<Rightarrow> ExecutionResponse \<Rightarrow> ExecutionRequest \<Rightarrow> ExecutionResponse \<times> LogEntry list"

definition writeToLog :: outputParser where
  "writeToLog line resp req =
     (case line of
        l0 # l1 # rest \<Rightarrow>
          (let fmt = ''(P: %s C: %s) %s'';
               message = Trim l1 '' '';
               as = [ArgS (PipelineID req), ArgS (Command req), ArgS message]
           in if l0 = ''DEBUG:'' then (resp, [logf Debug fmt as])
              else if l0 = ''WARN:'' then (resp, [logf Warn fmt as])
              else if l0 = ''ERR:'' then (resp, [logf Error fmt as])
              else if l0 = ''ERROR:'' then (resp, [logf Error fmt as])
              else (resp, [logf Info fmt as]))
      | _ \<Rightarrow> (resp, []))"

definition extractTemplate :: outputParser where
  "extractTemplate line resp req =
     (case line of
        l0 # l1 # rest \<Rightarrow> (resp\<lparr>Template := Trim l1 '' ''\<rparr>, [])
      | _ \<Rightarrow> (resp, []))"

definition flagJSON :: outputParser where
  "flagJSON line resp req = (resp\<lparr>IsJSON := True\<rparr>, [])"

text \<open>
  \<^verbatim>\<open>outputParsers\<close>, in the order of the map literal. The source ranges over a map, so
  the order of the tests is not fixed; \<open>outputParsers_order_irrelevant\<close> below shows
  that no line is matched by two patterns and that the order cannot matter.
\<close>

definition markers :: "Regexp list" where
  "markers =
     [StartsWith ''COGCMD_DEBUG:'', StartsWith ''COGCMD_INFO:'', StartsWith ''COGCMD_WARN:'',
      StartsWith ''COGCMD_ERR:'', StartsWith ''COGCMD_ERROR:'', StartsWith ''COG_TEMPLATE:'',
      Exactly ''JSON'']"

definition outputParsers :: "(Regexp \<times> outputParser) list" where
  "outputParsers =
     [(StartsWith ''COGCMD_DEBUG:'', writeToLog),
      (StartsWith ''COGCMD_INFO:'', writeToLog),
      (StartsWith ''COGCMD_WARN:'', writeToLog),
      (StartsWith ''COGCMD_ERR:'', writeToLog),
      (StartsWith ''COGCMD_ERROR:'', writeToLog),
      (StartsWith ''COG_TEMPLATE:'', extractTemplate),
      (Exactly ''JSON'', flagJSON)]"

text \<open>A marker line is a line that one of the patterns matches.\<close>

definition isMarker :: "string \<Rightarrow> bool" where
  "isMarker line = list_ex (\<lambda>re. MatchString re line) markers"

text \<open>
  One round of the loop over the lines: the accumulator holds the retained lines, the
  response and the log written so far.
\<close>

definition parseLine ::
  "ExecutionRequest \<Rightarrow> string list \<times> ExecutionResponse \<times> LogEntry list \<Rightarrow> string
     \<Rightarrow> string list \<times> ExecutionResponse \<times> LogEntry list" where
  "parseLine req acc line =
     (case acc of (retained, resp, out) \<Rightarrow>
        (case find (\<lambda>(re, cb). MatchString re line) outputParsers of
           Some (re, cb) \<Rightarrow>
             (case cb (Split2 re line) resp req of
                (resp', written) \<Rightarrow> (retained, resp', out @ written))
         | None \<Rightarrow> (retained @ [line], resp, out)))"

text \<open>
  Stdout without one trailing newline, split at newlines (the argument of the loop),
  and the lines among them that no pattern matches.
\<close>

abbreviation splitLines :: "string \<Rightarrow> string list" where
  "splitLines out \<equiv> Split (TrimSuffix out [newline]) newline"

abbreviation nonMarkers :: "string list \<Rightarrow> string list" where
  "nonMarkers ls \<equiv> filter (\<lambda>l. \<not> isMarker l) ls"

text \<open>The lines the loop visits: none when stdout is empty (the guard on its length).\<close>

definition stdoutLines :: "ExecResult \<Rightarrow> string list" where
  "stdoutLines result =
     (if length (Stdout result) > 0
      then Split (TrimSuffix (Stdout result) [newline]) newline
      else [])"

text \<open>
  \<^verbatim>\<open>parseOutput\<close>. The engine's \<^verbatim>\<open>error\<close> is \<open>None\<close> for \<^verbatim>\<open>nil\<close> and otherwise its
  message. \<open>decode\<close> is the decoder library. The result is the response after the call
  and the log it wrote.
\<close>

definition parseOutput ::
  "jsonlib \<Rightarrow> ExecResult \<Rightarrow> string option \<Rightarrow> ExecutionResponse
     \<Rightarrow> ExecutionRequest \<Rightarrow> ExecutionResponse \<times> LogEntry list" where
  "parseOutput decode result err resp req =
     (case err of
        Some e \<Rightarrow> (resp\<lparr>Status := ''error'', StatusMessage := e\<rparr>, [])
      | None \<Rightarrow>
          (case foldl (parseLine req) ([], resp, []) (stdoutLines result) of
             (retained, resp1, out) \<Rightarrow>
               if length (Stderr result) > 0
               then (resp1\<lparr>Status := ''error'', StatusMessage := Stderr result\<rparr>, out)
               else
                 (let resp2 = resp1\<lparr>Status := ''ok''\<rparr>
                  in if IsJSON resp2 = True
                     then (let remaining = Join retained [newline];
                               d = UseNumber (NewDecoder remaining)
                           in case Decode decode d of
                                None \<Rightarrow>
                                  (resp2\<lparr>Status := ''error'',
                                         StatusMessage := ''Command returned invalid JSON.''\<rparr>,
                                   out)
                              | Some jsonBody \<Rightarrow> (resp2\<lparr>Body := BodyJSON jsonBody\<rparr>, out))
                     else if length retained > 0
                          then (resp2\<lparr>Body := BodyMaps [[''body'' \<mapsto> retained]]\<rparr>, out)
                          else (resp2, out))))"

subsection \<open>The worker: executeCommand\<close>

text \<open>
  What \<^verbatim>\<open>executeCommand\<close> calls outside the sources at hand is a parameter:
  \<^verbatim>\<open>json.Unmarshal\<close> into an execution request (\<open>Inl\<close> carries the error), the two
  engine constructors, and \<^verbatim>\<open>Execute\<close>, which is what an engine is here: a function
  from the request and the bundle to stdout, stderr and an optional error.
\<close>

type_synonym Engine = "ExecutionRequest \<Rightarrow> Bundle \<Rightarrow> string \<times> string \<times> string option"

record Env =
  Unmarshal :: "string \<Rightarrow> string + ExecutionRequest"
  NewDockerEngine :: "Config \<Rightarrow> string + Engine"
  NewNativeEngine :: "string + Engine"

record Incoming =
  Relay :: Relay
  IsExecution :: bool
  Topic :: string
  Payload :: string

definition engineForBundle :: "Env \<Rightarrow> Bundle \<Rightarrow> Incoming \<Rightarrow> string + Engine" where
  "engineForBundle env bundle incoming =
     (if IsDocker bundle = True then NewDockerEngine env (Config (Relay incoming))
      else NewNativeEngine env)"

text \<open>
  \<^verbatim>\<open>executeCommand\<close> as the worker source has it: on success it copies the raw stdout
  into the body; it does not pass the engine's result through \<^verbatim>\<open>parseOutput\<close>. The
  result is the relay of the incoming message after the call.
\<close>

definition executeCommand :: "Env \<Rightarrow> Incoming \<Rightarrow> Relay" where
  "executeCommand env incoming =
     (case Unmarshal env (Payload incoming) of
        Inl err \<Rightarrow>
          logr Error ''Ignoring malformed execution request: %s.'' [ArgS err] (Relay incoming)
      | Inr request \<Rightarrow>
          (let response =
             (case GetBundle (Relay incoming) (BundleName request) of
                None \<Rightarrow>
                  emptyResponse\<lparr>Status := ''error'',
                    StatusMessage := ''Unknown command bundle '' @ BundleName request\<rparr>
              | Some bundle \<Rightarrow>
                  (case engineForBundle env bundle incoming of
                     Inl err \<Rightarrow> emptyResponse\<lparr>Status := ''error'', StatusMessage := err\<rparr>
                   | Inr engine \<Rightarrow>
                       (case engine request bundle of
                          (commandOutput, commandErrors, Some err) \<Rightarrow>
                            emptyResponse\<lparr>Status := ''error'', StatusMessage := err\<rparr>
                        | (commandOutput, commandErrors, None) \<Rightarrow>
                            if length commandErrors > 0
                            then emptyResponse\<lparr>Status := ''error'',
                                   StatusMessage := commandErrors\<rparr>
                            else emptyResponse\<lparr>Status := ''ok'',
                                   Body := BodyString commandOutput\<rparr>)))
           in Publish (TopicName (ReplyTo request)) (Response response) (Relay incoming)))"

subsection \<open>Sample inputs\<close>

text \<open>Concrete values at which the theorems below are instantiated.\<close>

definition cfgSample :: Config where
  "cfgSample = \<lparr>ID = ''relay-1'', MaxConcurrent = 4\<rparr>"

definition echoBundle :: Bundle where
  "echoBundle = \<lparr>name = ''echo'', kind = Native\<rparr>"

definition echoMap :: BundleMap where
  "echoMap = [(''echo'', echoBundle)]"

definition relaySample :: Relay where
  "relaySample = (New cfgSample)\<lparr>bundles := echoMap, bundlesHash := offset64\<rparr>"

definition reqEcho :: ExecutionRequest where
  "reqEcho = \<lparr>bundleName = ''echo'', Command = ''echo'', ReplyTo = ''r1'', pipelineID = ''p1''\<rparr>"

definition reqFail :: ExecutionRequest where
  "reqFail = \<lparr>bundleName = ''echo'', Command = ''fail'', ReplyTo = ''r1'', pipelineID = ''p1''\<rparr>"

definition reqNoBundle :: ExecutionRequest where
  "reqNoBundle = \<lparr>bundleName = [], Command = ''echo'', ReplyTo = ''r1'', pipelineID = ''p1''\<rparr>"

definition reqRows :: ExecutionRequest where
  "reqRows = \<lparr>bundleName = ''echo'', Command = ''rows'', ReplyTo = ''r1'', pipelineID = ''p1''\<rparr>"

definition unmarshalSample :: "string \<Rightarrow> string + ExecutionRequest" where
  "unmarshalSample p =
     (if p = ''run-echo'' then Inr reqEcho
      else if p = ''run-fail'' then Inr reqFail
      else if p = ''no-bundle'' then Inr reqNoBundle
      else if p = ''run-rows'' then Inr reqRows
      else Inl ''invalid character'')"

definition rowsOutput :: string where
  "rowsOutput =
     ''COGCMD_INFO: starting'' @ [newline] @ ''COG_TEMPLATE: my_tmpl'' @ [newline] @
     ''result row'' @ [newline]"

definition engineSample :: Engine where
  "engineSample req b =
     (if Command req = ''fail'' then (''ignored'' @ [newline], ''boom'', None)
      else if Command req = ''rows'' then (rowsOutput, [], None)
      else (''hello'' @ [newline], [], None))"

definition envSample :: Env where
  "envSample =
     \<lparr>Unmarshal = unmarshalSample,
      NewDockerEngine = (\<lambda>cfg. Inl ''docker engine disabled''),
      NewNativeEngine = Inr engineSample\<rparr>"

definition incomingSample :: "string \<Rightarrow> Incoming" where
  "incomingSample p =
     \<lparr>Relay = relaySample, IsExecution = True, Topic = ''/bot/commands/echo'', Payload = p\<rparr>"

text \<open>
  A sample decoder library: it keeps an integer literal as its text with \<^verbatim>\<open>UseNumber\<close>
  and rounds it away without, and it knows one array that is written on two lines.
\<close>

definition decodeSample :: jsonlib where
  "decodeSample un s =
     (if isIntegerLiteral s then (if un then Some (JNumber s) else Some (JFloat64 0 0))
      else if s = ''[1,'' @ [newline] @ ''2]''
           then Some (JArray (if un then [JNumber ''1'', JNumber ''2'']
                              else [JFloat64 1 0, JFloat64 1 1]))
      else None)"

definition stdoutRows :: ExecResult where
  "stdoutRows = \<lparr>Stdout = rowsOutput, Stderr = []\<rparr>"

definition stdoutNone :: ExecResult where
  "stdoutNone = \<lparr>Stdout = [], Stderr = []\<rparr>"

definition stdoutLevels :: ExecResult where
  "stdoutLevels =
     \<lparr>Stdout = ''COGCMD_DEBUG: a'' @ [newline] @ ''COGCMD_WARN: b'' @ [newline] @
               ''COGCMD_ERR: c'' @ [newline] @ ''COGCMD_ERROR: d'' @ [newline],
      Stderr = []\<rparr>"

definition stdoutArray :: ExecResult where
  "stdoutArray =
     \<lparr>Stdout = ''JSON'' @ [newline] @ ''[1,'' @ [newline] @ ''2]'' @ [newline], Stderr = []\<rparr>"

definition stdoutBig :: ExecResult where
  "stdoutBig = \<lparr>Stdout = ''JSON'' @ [newline] @ ''9007199254740993'' @ [newline], Stderr = []\<rparr>"

definition stdoutBroken :: ExecResult where
  "stdoutBroken = \<lparr>Stdout = ''JSON'' @ [newline] @ ''{'' @ [newline], Stderr = []\<rparr>"

definition stdoutBoom :: ExecResult where
  "stdoutBoom = \<lparr>Stdout = ''ignored'' @ [newline], Stderr = ''boom''\<rparr>"

section \<open>Properties\<close>

subsection \<open>The hasher is never written to\<close>

lemma Sum_keeps_state: "fst (Sum_fnv h b) = h"
  by simp

lemma Sum_loop_keeps_state: "foldl (\<lambda>h k. fst (Sum_fnv h (bytes k))) h0 ks = h0"
  by (induction ks) simp_all

lemma computeBundleHash_const: "computeBundleHash bs = offset64"
  unfolding computeBundleHash_def Let_def Sum_loop_keeps_state
  by (simp add: Sum64_def New64_def)

lemma foldl_UpdateBundleList_fixed:
  "bundlesHash r = offset64 \<Longrightarrow> foldl UpdateBundleList r ms = r"
  by (induction ms) (simp_all add: UpdateBundleList_def computeBundleHash_const)

lemma UpdateBundleList_New:
  "UpdateBundleList (New cfg) m =
     (New cfg)\<lparr>bundles := m, bundlesHash := offset64, announce := True\<rparr>"
  by (simp add: UpdateBundleList_def computeBundleHash_const New_def offset64_def)

subsection \<open>The loop over the lines\<close>

text \<open>
  A line that no pattern matches is appended to the retained lines and changes nothing
  else. A line that a pattern matches is not retained; its callback leaves the status,
  the status message and the body alone, and sets the JSON flag exactly when the line
  is \<^verbatim>\<open>JSON\<close>.
\<close>

lemma map_fst_outputParsers: "map fst outputParsers = markers"
  by (simp add: outputParsers_def markers_def)

lemma find_outputParsers_None:
  "(find (\<lambda>(re, cb). MatchString re l) outputParsers = None) = (\<not> isMarker l)"
  by (simp add: outputParsers_def isMarker_def markers_def)

lemma parseLine_retained:
  "\<not> isMarker l \<Longrightarrow> parseLine req (ret, resp, out) l = (ret @ [l], resp, out)"
  using find_outputParsers_None [of l] by (simp add: parseLine_def)

lemma Split2_match:
  "MatchString re l \<Longrightarrow> literal re \<noteq> [] \<Longrightarrow> Split2 re l = [[], drop (length (literal re)) l]"
  by (cases re) (auto simp add: Split2_def FindStringIndex_def)

lemma writeToLog_after_Split2:
  "MatchString re l \<Longrightarrow> literal re \<noteq> [] \<Longrightarrow>
   writeToLog (Split2 re l) resp req =
     (resp, [logf Info ''(P: %s C: %s) %s''
               [ArgS (PipelineID req), ArgS (Command req),
                ArgS (Trim (drop (length (literal re)) l) '' '')]])"
  by (simp add: Split2_match writeToLog_def)

lemma parseLine_marker:
  assumes "isMarker l"
  shows "\<exists>resp' w. parseLine req (ret, resp, out) l = (ret, resp', out @ w) \<and>
           Body resp' = Body resp \<and> Status resp' = Status resp \<and>
           StatusMessage resp' = StatusMessage resp \<and>
           IsJSON resp' = (IsJSON resp \<or> l = ''JSON'')"
  using assms
  by (auto simp add: isMarker_def markers_def parseLine_def outputParsers_def Split2_match
      writeToLog_def extractTemplate_def flagJSON_def)

lemma foldl_parseLine:
  "\<exists>resp' out'. foldl (parseLine req) (ret, resp, out) ls =
       (ret @ filter (\<lambda>l. \<not> isMarker l) ls, resp', out') \<and>
     Body resp' = Body resp \<and> Status resp' = Status resp \<and>
     StatusMessage resp' = StatusMessage resp \<and>
     IsJSON resp' = (IsJSON resp \<or> ''JSON'' \<in> set ls)"
proof (induction ls arbitrary: ret resp out)
  case Nil
  then show ?case by simp
next
  case (Cons l ls)
  show ?case
  proof (cases "isMarker l")
    case True
    from parseLine_marker [OF True, of req ret resp out]
    obtain resp1 w where
      step: "parseLine req (ret, resp, out) l = (ret, resp1, out @ w)" and
      keep: "Body resp1 = Body resp" "Status resp1 = Status resp"
        "StatusMessage resp1 = StatusMessage resp"
        "IsJSON resp1 = (IsJSON resp \<or> l = ''JSON'')"
      by blast
    from Cons.IH [of ret resp1 "out @ w"] step keep True show ?thesis
      by auto
  next
    case False
    then have nj: "l \<noteq> ''JSON''"
      by (auto simp add: isMarker_def markers_def)
    from Cons.IH [of "ret @ [l]" resp out] parseLine_retained [OF False] False nj
    show ?thesis by auto
  qed
qed

lemma parseOutput_empty_stdout:
  "Stdout result = [] \<Longrightarrow> Stderr result = [] \<Longrightarrow> \<not> IsJSON resp \<Longrightarrow>
   parseOutput decode result None resp req = (resp\<lparr>Status := ''ok''\<rparr>, [])"
  by (simp add: parseOutput_def stdoutLines_def)

subsection \<open>Lines and patterns\<close>

text \<open>
  No line of stdout contains a newline, so the anchors of the patterns can only bind at
  the ends of a line. No line is matched by two patterns, so the order in which the
  source's \<^verbatim>\<open>range\<close> over the map of parsers tests them does not change which
  callback runs.
\<close>

lemma Split_nonempty: "Split s sep \<noteq> []"
  by (induction s) (auto split: list.splits)

lemma Split_no_sep: "l \<in> set (Split s sep) \<Longrightarrow> sep \<notin> set l"
  by (induction s arbitrary: l) (auto split: if_splits list.splits)

lemma stdoutLines_no_newline: "l \<in> set (stdoutLines result) \<Longrightarrow> newline \<notin> set l"
  by (auto simp add: stdoutLines_def dest: Split_no_sep split: if_splits)

lemma prefix_take: "prefix p l \<Longrightarrow> n \<le> length p \<Longrightarrow> take n l = take n p"
  by (auto simp add: prefix_def)

lemma marker_key:
  assumes "re \<in> set markers" "MatchString re l"
  shows "take 11 l = take 11 (literal re)"
proof (cases re)
  case (StartsWith p)
  with assms(2) have "prefix p l" by simp
  moreover from StartsWith assms(1) have "11 \<le> length p"
    by (auto simp add: markers_def)
  ultimately show ?thesis
    using StartsWith by (simp add: prefix_take)
next
  case (Exactly p)
  with assms(2) show ?thesis by simp
qed

lemma marker_key_inj:
  assumes "re1 \<in> set markers" "re2 \<in> set markers"
    "take 11 (literal re1) = take 11 (literal re2)"
  shows "re1 = re2"
  using assms
  by (auto simp add: markers_def)

lemma markers_exclusive:
  assumes "re1 \<in> set markers" "re2 \<in> set markers" "MatchString re1 l" "MatchString re2 l"
  shows "re1 = re2"
  using assms marker_key [of re1 l] marker_key [of re2 l] marker_key_inj [of re1 re2]
  by simp

lemma distinct_markers: "distinct markers"
  by (simp add: markers_def)

lemma find_unique:
  assumes "find P xs = Some x" and "set ys = set xs"
    and "\<And>a b. a \<in> set xs \<Longrightarrow> b \<in> set xs \<Longrightarrow> P a \<Longrightarrow> P b \<Longrightarrow> a = b"
  shows "find P ys = Some x"
proof -
  from assms(1) have x: "x \<in> set xs" "P x"
    by (auto simp add: find_Some_iff)
  with assms(2) have "\<exists>y \<in> set ys. P y" by auto
  then obtain y where y: "find P ys = Some y"
    by (cases "find P ys") (auto simp add: find_None_iff)
  then have "y \<in> set ys" "P y"
    by (auto simp add: find_Some_iff)
  with assms(2,3) x have "y = x" by auto
  with y show ?thesis by simp
qed

lemma outputParsers_order_irrelevant:
  assumes "set ps = set outputParsers"
  shows "find (\<lambda>(re, cb). MatchString re l) ps =
         find (\<lambda>(re, cb). MatchString re l) outputParsers"
proof (cases "find (\<lambda>(re, cb). MatchString re l) outputParsers")
  case None
  then have "\<forall>x \<in> set outputParsers. \<not> (case x of (re, cb) \<Rightarrow> MatchString re l)"
    by (auto simp add: find_None_iff)
  with assms have "find (\<lambda>(re, cb). MatchString re l) ps = None"
    by (auto simp add: find_None_iff)
  with None show ?thesis by simp
next
  case (Some x)
  have "find (\<lambda>(re, cb). MatchString re l) ps = Some x"
  proof (rule find_unique [OF Some assms])
    fix a b :: "Regexp \<times> outputParser"
    assume a: "a \<in> set outputParsers" and b: "b \<in> set outputParsers"
      and ma: "case a of (re, cb) \<Rightarrow> MatchString re l"
      and mb: "case b of (re, cb) \<Rightarrow> MatchString re l"
    obtain re1 cb1 re2 cb2 where ab: "a = (re1, cb1)" "b = (re2, cb2)"
      by (cases a, cases b) blast
    from a b ab have "re1 \<in> set markers" "re2 \<in> set markers"
      by (force simp add: map_fst_outputParsers [symmetric])+
    with ma mb ab have "re1 = re2"
      by (auto intro: markers_exclusive)
    moreover have "distinct (map fst outputParsers)"
      by (simp add: map_fst_outputParsers distinct_markers)
    ultimately show "a = b"
      using a b ab by (auto dest: eq_key_imp_eq_value)
  qed
  with Some show ?thesis by simp
qed

subsection \<open>The catalog\<close>

text \<open>
  C1. The claim: maps with the same key set have the same hash, and maps whose key sets
  differ have different hashes. The first half holds (\<open>computeBundleHash_const\<close>). The
  second half fails on the source: the loop calls \<^verbatim>\<open>Sum\<close>, which reads the hasher,
  where \<^verbatim>\<open>Write\<close> would feed it, so the digest is the offset basis whatever the keys
  are. The catalog with the single bundle \<^verbatim>\<open>echo\<close> and the empty catalog have
  different key sets and the same hash.
\<close>

theorem computeBundleHash_collision:
  "set (map fst echoMap) \<noteq> set (map fst ([] :: BundleMap)) \<and>
   computeBundleHash echoMap = computeBundleHash []"
  by (simp add: computeBundleHash_const echoMap_def)

text \<open>
  C2. \<^verbatim>\<open>UpdateBundleList\<close>: when the hash computed for the new map equals the stored
  hash, the relay (its map, hash and announce flag included) is left as it is; otherwise
  the map and the hash are replaced by the new ones, the announce flag is set, and
  nothing else changes.
\<close>

theorem UpdateBundleList_noop_or_replace:
  "(computeBundleHash newMap = bundlesHash r \<longrightarrow> UpdateBundleList r newMap = r) \<and>
   (computeBundleHash newMap \<noteq> bundlesHash r \<longrightarrow>
      UpdateBundleList r newMap =
        r\<lparr>bundles := newMap, bundlesHash := computeBundleHash newMap, announce := True\<rparr>)"
  by (auto simp add: UpdateBundleList_def Let_def)

theorem UpdateBundleList_noop_or_replace_witness:
  "computeBundleHash [] = bundlesHash relaySample \<and>
   UpdateBundleList relaySample [] = relaySample \<and>
   computeBundleHash echoMap \<noteq> bundlesHash (New cfgSample) \<and>
   UpdateBundleList (New cfgSample) echoMap =
     (New cfgSample)\<lparr>bundles := echoMap, bundlesHash := computeBundleHash echoMap,
                      announce := True\<rparr>"
proof -
  have same: "computeBundleHash [] = bundlesHash relaySample"
    by (simp add: computeBundleHash_const relaySample_def)
  have other: "computeBundleHash echoMap \<noteq> bundlesHash (New cfgSample)"
    by (simp add: computeBundleHash_const New_def offset64_def)
  from same other
    UpdateBundleList_noop_or_replace [of "[]" relaySample]
    UpdateBundleList_noop_or_replace [of echoMap "New cfgSample"]
  show ?thesis by blast
qed

text \<open>
  C3. Every computed hash is the FNV-64 offset basis 14695981039346656037, and a fresh
  relay stores the hash 0. So in a sequence of \<^verbatim>\<open>UpdateBundleList\<close> calls on a fresh
  relay the first call installs its map \<open>m\<close> and sets the announce flag, the calls
  after it (the maps \<open>ms\<close>) change nothing, and one more call with any map \<open>m'\<close>
  changes nothing either.
\<close>

theorem first_update_installs_later_inert:
  "computeBundleHash m = 14695981039346656037 \<and>
   bundlesHash (New cfg) = 0 \<and>
   foldl UpdateBundleList (New cfg) (m # ms) =
     (New cfg)\<lparr>bundles := m, bundlesHash := 14695981039346656037, announce := True\<rparr> \<and>
   UpdateBundleList (foldl UpdateBundleList (New cfg) (m # ms)) m' =
     foldl UpdateBundleList (New cfg) (m # ms)"
proof -
  let ?r1 = "(New cfg)\<lparr>bundles := m, bundlesHash := offset64, announce := True\<rparr>"
  have h: "computeBundleHash m = 14695981039346656037"
    by (simp add: computeBundleHash_const offset64_def)
  have z: "bundlesHash (New cfg) = 0"
    by (simp add: New_def)
  have "foldl UpdateBundleList (New cfg) (m # ms) = foldl UpdateBundleList ?r1 ms"
    by (simp add: UpdateBundleList_New)
  also have "\<dots> = ?r1"
    by (rule foldl_UpdateBundleList_fixed) simp
  finally have f: "foldl UpdateBundleList (New cfg) (m # ms) = ?r1" .
  have s: "UpdateBundleList ?r1 m' = ?r1"
    by (simp add: UpdateBundleList_def computeBundleHash_const)
  from h z f s show ?thesis
    by (simp add: offset64_def)
qed

theorem first_update_installs_later_inert_witness:
  "foldl UpdateBundleList (New cfgSample) [echoMap, [], echoMap] =
     (New cfgSample)\<lparr>bundles := echoMap, bundlesHash := 14695981039346656037,
                      announce := True\<rparr> \<and>
   UpdateBundleList (foldl UpdateBundleList (New cfgSample) [echoMap, [], echoMap]) [] =
     foldl UpdateBundleList (New cfgSample) [echoMap, [], echoMap]"
  using first_update_installs_later_inert [of echoMap cfgSample "[[], echoMap]" "[]"]
  by blast

subsection \<open>The end of a refresh\<close>

text \<open>
  C9. \<^verbatim>\<open>handleUpdateBundlesDone\<close> in state \<^verbatim>\<open>RelayUpdatingBundles\<close>: one bundle
  announcement is published on the discovery topic if the announce flag is set and
  nothing is published otherwise; afterwards the flag is clear and the state is
  \<^verbatim>\<open>RelayReady\<close>; the catalog and its hash stay. In any other state the handler only
  writes the bad-state error to the log, so the state, the catalog, the announce flag
  and the link are as before, and \<^verbatim>\<open>FinishedUpdateBundles\<close> returns false without
  sending a control command.
\<close>

theorem handleUpdateBundlesDone_announces_iff_flag:
  "(state r = RelayUpdatingBundles \<longrightarrow>
      Bus (handleUpdateBundlesDone r) =
        Bus r @ (if announce r
                 then [(RelayDiscoveryTopic, BundleAnnouncement (ID (Config r)) (BundleNames r))]
                 else []) \<and>
      announce (handleUpdateBundlesDone r) = False \<and>
      state (handleUpdateBundlesDone r) = RelayReady \<and>
      bundles (handleUpdateBundlesDone r) = bundles r \<and>
      bundlesHash (handleUpdateBundlesDone r) = bundlesHash r) \<and>
   (state r \<noteq> RelayUpdatingBundles \<longrightarrow>
      handleUpdateBundlesDone r =
        r\<lparr>logged := logged r @
              [logf Error ''%s requires relay state %d: %d.''
                 [ArgS ''handleUpdatesBundleDone'', ArgD 2, ArgD (stateCode (state r))]]\<rparr> \<and>
      FinishedUpdateBundles r = Some (r, False))"
  by (simp add: handleUpdateBundlesDone_def Let_def announceBundles_def Publish_def logr_def
      logBadState_def FinishedUpdateBundles_def BundleNames_def)

theorem handleUpdateBundlesDone_announces_iff_flag_witness:
  "state (relaySample\<lparr>announce := True, state := RelayUpdatingBundles\<rparr>) = RelayUpdatingBundles \<and>
   Bus (handleUpdateBundlesDone (relaySample\<lparr>announce := True, state := RelayUpdatingBundles\<rparr>)) =
     [(RelayDiscoveryTopic, BundleAnnouncement ''relay-1'' [''echo''])] \<and>
   state (handleUpdateBundlesDone (relaySample\<lparr>announce := True, state := RelayUpdatingBundles\<rparr>))
     = RelayReady \<and>
   state (relaySample\<lparr>announce := True, state := RelayReady\<rparr>) \<noteq> RelayUpdatingBundles \<and>
   state (handleUpdateBundlesDone (relaySample\<lparr>announce := True, state := RelayReady\<rparr>))
     = RelayReady \<and>
   announce (handleUpdateBundlesDone (relaySample\<lparr>announce := True, state := RelayReady\<rparr>)) \<and>
   Bus (handleUpdateBundlesDone (relaySample\<lparr>announce := True, state := RelayReady\<rparr>)) = []"
  using
    handleUpdateBundlesDone_announces_iff_flag
      [of "relaySample\<lparr>announce := True, state := RelayUpdatingBundles\<rparr>"]
    handleUpdateBundlesDone_announces_iff_flag
      [of "relaySample\<lparr>announce := True, state := RelayReady\<rparr>"]
  by (simp add: relaySample_def New_def cfgSample_def echoMap_def BundleNames_def)

subsection \<open>The sample outputs, line by line\<close>

lemma splitLines_rowsOutput:
  "splitLines rowsOutput = [''COGCMD_INFO: starting'', ''COG_TEMPLATE: my_tmpl'', ''result row'']"
  by code_simp

lemma nonMarkers_rowsOutput: "nonMarkers (splitLines rowsOutput) = [''result row'']"
  by code_simp

lemma splitLines_stdoutArray: "splitLines (Stdout stdoutArray) = [''JSON'', ''[1,'', ''2]'']"
  by code_simp

lemma nonMarkers_stdoutArray: "nonMarkers (splitLines (Stdout stdoutArray)) = [''[1,'', ''2]'']"
  by code_simp

lemma splitLines_stdoutBig: "splitLines (Stdout stdoutBig) = [''JSON'', ''9007199254740993'']"
  by code_simp

lemma nonMarkers_stdoutBig: "nonMarkers (splitLines (Stdout stdoutBig)) = [''9007199254740993'']"
  by code_simp

lemma splitLines_stdoutBroken: "splitLines (Stdout stdoutBroken) = [''JSON'', ''{'']"
  by code_simp

lemma nonMarkers_stdoutBroken: "nonMarkers (splitLines (Stdout stdoutBroken)) = [''{'']"
  by code_simp

subsection \<open>The output parser\<close>

lemma stdoutLines_nonempty: "Stdout result \<noteq> [] \<Longrightarrow> stdoutLines result = splitLines (Stdout result)"
  by (simp add: stdoutLines_def)

lemma splitLines_empty: "splitLines [] = [[]]"
  by (simp add: TrimSuffix_def)

lemma JSON_line_nonempty: "''JSON'' \<in> set (splitLines out) \<Longrightarrow> out \<noteq> []"
  by (auto simp add: splitLines_empty)

lemma parseOutput_plain:
  assumes "Stderr result = []" and "\<not> IsJSON resp"
    and "''JSON'' \<notin> set (stdoutLines result)"
    and "nonMarkers (stdoutLines result) \<noteq> []"
  shows "Status (fst (parseOutput decode result None resp req)) = ''ok'' \<and>
         Body (fst (parseOutput decode result None resp req)) =
           BodyMaps [[''body'' \<mapsto> nonMarkers (stdoutLines result)]]"
proof -
  from foldl_parseLine [of req "[]" resp "[]" "stdoutLines result"]
  obtain resp1 out1 where
    run: "foldl (parseLine req) ([], resp, []) (stdoutLines result) =
            (nonMarkers (stdoutLines result), resp1, out1)" and
    flag: "IsJSON resp1 = (IsJSON resp \<or> ''JSON'' \<in> set (stdoutLines result))"
    by auto
  from assms(2,3) flag have nf: "\<not> IsJSON resp1" by simp
  from run nf assms(1,4) show ?thesis
    by (simp add: parseOutput_def Let_def)
qed

text \<open>
  C4, as the source has it. \<^verbatim>\<open>parseOutput\<close>, for an execution without engine error
  and with empty stderr, entered with the response's JSON flag clear: when stdout is not
  empty and, with one trailing newline stripped and split at newlines, has no line
  \<^verbatim>\<open>JSON\<close> and at least one line that is not a marker line, the response has status
  \<^verbatim>\<open>ok\<close> and its body is the one-element list holding the map from \<^verbatim>\<open>body\<close> to the
  retained lines, which are those lines with the marker lines filtered out: the same
  order, each occurrence once, no marker line. When stdout is empty the loop is skipped
  and the body stays as it came. \<^verbatim>\<open>executeCommand\<close> does not run \<^verbatim>\<open>parseOutput\<close>: for
  an execution without engine error and with empty stderr the response it publishes on
  the reply topic has status \<^verbatim>\<open>ok\<close> and the raw stdout as its body.
\<close>

theorem parseOutput_body_and_published_body:
  "(Stdout result \<noteq> [] \<and> Stderr result = [] \<and> \<not> IsJSON resp \<and>
    ''JSON'' \<notin> set (splitLines (Stdout result)) \<and>
    (\<exists>l \<in> set (splitLines (Stdout result)). \<not> isMarker l) \<longrightarrow>
      Status (fst (parseOutput decode result None resp req)) = ''ok'' \<and>
      Body (fst (parseOutput decode result None resp req)) =
        BodyMaps [[''body'' \<mapsto> nonMarkers (splitLines (Stdout result))]]) \<and>
   (Stdout result = [] \<and> Stderr result = [] \<and> \<not> IsJSON resp \<longrightarrow>
      Status (fst (parseOutput decode result None resp req)) = ''ok'' \<and>
      Body (fst (parseOutput decode result None resp req)) = Body resp) \<and>
   (Unmarshal env (Payload incoming) = Inr request \<and>
    GetBundle (Relay incoming) (BundleName request) = Some bndl \<and>
    engineForBundle env bndl incoming = Inr engine \<and>
    engine request bndl = (commandOutput, [], None) \<longrightarrow>
      Bus (executeCommand env incoming) =
        Bus (Relay incoming) @
          [(TopicName (ReplyTo request),
            Response \<lparr>Status = ''ok'', StatusMessage = [], Template = [], IsJSON = False,
                      Body = BodyString commandOutput\<rparr>)])"
proof -
  have parse: "Stdout result \<noteq> [] \<and> Stderr result = [] \<and> \<not> IsJSON resp \<and>
    ''JSON'' \<notin> set (splitLines (Stdout result)) \<and>
    (\<exists>l \<in> set (splitLines (Stdout result)). \<not> isMarker l) \<longrightarrow>
      Status (fst (parseOutput decode result None resp req)) = ''ok'' \<and>
      Body (fst (parseOutput decode result None resp req)) =
        BodyMaps [[''body'' \<mapsto> nonMarkers (splitLines (Stdout result))]]"
  proof (intro impI, elim conjE)
    assume ne: "Stdout result \<noteq> []" and e: "Stderr result = []" and f: "\<not> IsJSON resp"
      and j: "''JSON'' \<notin> set (splitLines (Stdout result))"
      and l: "\<exists>l \<in> set (splitLines (Stdout result)). \<not> isMarker l"
    from l have "nonMarkers (splitLines (Stdout result)) \<noteq> []"
      by (auto simp add: filter_empty_conv)
    with parseOutput_plain [of result resp decode req] ne e f j
    show "Status (fst (parseOutput decode result None resp req)) = ''ok'' \<and>
      Body (fst (parseOutput decode result None resp req)) =
        BodyMaps [[''body'' \<mapsto> nonMarkers (splitLines (Stdout result))]]"
      by (simp add: stdoutLines_nonempty)
  qed
  have empty: "Stdout result = [] \<and> Stderr result = [] \<and> \<not> IsJSON resp \<longrightarrow>
      Status (fst (parseOutput decode result None resp req)) = ''ok'' \<and>
      Body (fst (parseOutput decode result None resp req)) = Body resp"
    by (simp add: parseOutput_empty_stdout)
  have exec: "Unmarshal env (Payload incoming) = Inr request \<and>
    GetBundle (Relay incoming) (BundleName request) = Some bndl \<and>
    engineForBundle env bndl incoming = Inr engine \<and>
    engine request bndl = (commandOutput, [], None) \<longrightarrow>
      Bus (executeCommand env incoming) =
        Bus (Relay incoming) @
          [(TopicName (ReplyTo request),
            Response \<lparr>Status = ''ok'', StatusMessage = [], Template = [], IsJSON = False,
                      Body = BodyString commandOutput\<rparr>)]"
    by (simp add: executeCommand_def Publish_def emptyResponse_def)
  from parse empty exec show ?thesis by blast
qed

theorem parseOutput_body_and_published_body_witness:
  "Stdout stdoutRows \<noteq> [] \<and> Stderr stdoutRows = [] \<and> \<not> IsJSON emptyResponse \<and>
   ''JSON'' \<notin> set (splitLines (Stdout stdoutRows)) \<and>
   ''result row'' \<in> set (splitLines (Stdout stdoutRows)) \<and> \<not> isMarker ''result row'' \<and>
   Status (fst (parseOutput decodeSample stdoutRows None emptyResponse reqEcho)) = ''ok'' \<and>
   Body (fst (parseOutput decodeSample stdoutRows None emptyResponse reqEcho)) =
     BodyMaps [[''body'' \<mapsto> [''result row'']]] \<and>
   Stdout stdoutNone = [] \<and> Stderr stdoutNone = [] \<and>
   Body (fst (parseOutput decodeSample stdoutNone None emptyResponse reqEcho)) = BodyNil \<and>
   engineSample reqEcho echoBundle = (''hello'' @ [newline], [], None) \<and>
   Bus (executeCommand envSample (incomingSample ''run-echo'')) =
     [(TopicName ''r1'',
       Response \<lparr>Status = ''ok'', StatusMessage = [], Template = [], IsJSON = False,
                 Body = BodyString (''hello'' @ [newline])\<rparr>)]"
proof -
  have a: "Stdout stdoutRows \<noteq> []" "Stderr stdoutRows = []"
    by (simp_all add: stdoutRows_def rowsOutput_def)
  have b: "\<not> IsJSON emptyResponse" "Body emptyResponse = BodyNil"
    by (simp_all add: emptyResponse_def)
  have s: "Stdout stdoutRows = rowsOutput"
    by (simp add: stdoutRows_def)
  have c: "''JSON'' \<notin> set (splitLines (Stdout stdoutRows))"
    and d: "''result row'' \<in> set (splitLines (Stdout stdoutRows))"
    by (simp_all add: s splitLines_rowsOutput)
  have m: "\<not> isMarker ''result row''"
    by code_simp
  from d m have ex: "\<exists>l \<in> set (splitLines (Stdout stdoutRows)). \<not> isMarker l"
    by blast
  have n: "Stdout stdoutNone = []" "Stderr stdoutNone = []"
    by (simp_all add: stdoutNone_def)
  have u: "Unmarshal envSample (Payload (incomingSample ''run-echo'')) = Inr reqEcho"
    by (simp add: envSample_def incomingSample_def unmarshalSample_def)
  have g: "GetBundle (Relay (incomingSample ''run-echo'')) (BundleName reqEcho) = Some echoBundle"
    by (simp add: GetBundle_def incomingSample_def relaySample_def echoMap_def BundleName_def
        reqEcho_def)
  have e: "engineForBundle envSample echoBundle (incomingSample ''run-echo'') = Inr engineSample"
    by (simp add: engineForBundle_def envSample_def echoBundle_def IsDocker_def)
  have x: "engineSample reqEcho echoBundle = (''hello'' @ [newline], [], None)"
    by (simp add: engineSample_def reqEcho_def)
  have z: "Bus (Relay (incomingSample ''run-echo'')) = []"
    by (simp add: incomingSample_def relaySample_def New_def)
  note rows = parseOutput_body_and_published_body [where result = stdoutRows
      and resp = emptyResponse and decode = decodeSample and req = reqEcho
      and env = envSample and incoming = "incomingSample ''run-echo''" and request = reqEcho
      and bndl = echoBundle and engine = engineSample
      and commandOutput = "''hello'' @ [newline]"]
  note none = parseOutput_body_and_published_body [where result = stdoutNone
      and resp = emptyResponse and decode = decodeSample and req = reqEcho
      and env = envSample and incoming = "incomingSample ''run-echo''" and request = reqEcho
      and bndl = echoBundle and engine = engineSample
      and commandOutput = "''hello'' @ [newline]"]
  from rows none a b c d m ex n u g e x z show ?thesis
    by (simp add: s nonMarkers_rowsOutput reqEcho_def)
qed

text \<open>
  The claim C4 as stated asks for the list-of-map body in the published response, for
  every stdout that has a non-marker line once it is stripped and split. The request
  \<^verbatim>\<open>run-rows\<close> runs without error and with empty stderr, its stdout has the non-marker
  line \<^verbatim>\<open>result row\<close> and no line \<^verbatim>\<open>JSON\<close>, and the body published on \<^verbatim>\<open>r1\<close> is
  the raw stdout. And the empty stdout, stripped and split, is the single empty line,
  which is not a marker line, yet \<^verbatim>\<open>parseOutput\<close> leaves the body unset.
\<close>

theorem published_body_is_raw_stdout:
  "engineSample reqRows echoBundle = (rowsOutput, [], None) \<and>
   splitLines rowsOutput =
     [''COGCMD_INFO: starting'', ''COG_TEMPLATE: my_tmpl'', ''result row''] \<and>
   \<not> isMarker ''result row'' \<and>
   Bus (executeCommand envSample (incomingSample ''run-rows'')) =
     [(TopicName ''r1'',
       Response \<lparr>Status = ''ok'', StatusMessage = [], Template = [], IsJSON = False,
                 Body = BodyString rowsOutput\<rparr>)] \<and>
   BodyString rowsOutput \<noteq> BodyMaps [[''body'' \<mapsto> [''result row'']]] \<and>
   splitLines (Stdout stdoutNone) = [[]] \<and> \<not> isMarker [] \<and>
   Stderr stdoutNone = [] \<and>
   Body (fst (parseOutput decodeSample stdoutNone None emptyResponse reqEcho)) = BodyNil"
proof -
  have x: "engineSample reqRows echoBundle = (rowsOutput, [], None)"
    by (simp add: engineSample_def reqRows_def)
  have m: "\<not> isMarker ''result row''" "\<not> isMarker []"
    by code_simp+
  have p: "Bus (executeCommand envSample (incomingSample ''run-rows'')) =
     [(TopicName ''r1'',
       Response \<lparr>Status = ''ok'', StatusMessage = [], Template = [], IsJSON = False,
                 Body = BodyString rowsOutput\<rparr>)]"
    by (simp add: executeCommand_def envSample_def incomingSample_def unmarshalSample_def
        reqRows_def BundleName_def GetBundle_def relaySample_def New_def echoMap_def
        engineForBundle_def echoBundle_def IsDocker_def engineSample_def
        Publish_def emptyResponse_def)
  have n: "splitLines (Stdout stdoutNone) = [[]]" "Stderr stdoutNone = []"
    by (simp_all add: stdoutNone_def TrimSuffix_def)
  have b: "Body (fst (parseOutput decodeSample stdoutNone None emptyResponse reqEcho)) = BodyNil"
    by (simp add: parseOutput_empty_stdout stdoutNone_def emptyResponse_def)
  from x m p n b show ?thesis
    by (simp add: splitLines_rowsOutput)
qed

text \<open>
  C5. The claim: a line that begins with \<^verbatim>\<open>COGCMD_DEBUG:\<close>, \<^verbatim>\<open>COGCMD_INFO:\<close>,
  \<^verbatim>\<open>COGCMD_WARN:\<close>, \<^verbatim>\<open>COGCMD_ERR:\<close> or \<^verbatim>\<open>COGCMD_ERROR:\<close> is logged at the level it
  names and is not retained. The line is consumed and its remainder is logged with the
  pipeline and the command, but \<^verbatim>\<open>writeToLog\<close> chooses the level from the first piece
  of \<^verbatim>\<open>re.Split(line, 2)\<close>, which is the empty text before the match and never
  \<^verbatim>\<open>DEBUG:\<close>, \<^verbatim>\<open>WARN:\<close>, \<^verbatim>\<open>ERR:\<close> or \<^verbatim>\<open>ERROR:\<close>: the switch takes its default and
  every such line is logged at level INFO (\<open>writeToLog_after_Split2\<close>). Here a stdout of
  one DEBUG, one WARN, one ERR and one ERROR line gives four INFO entries.
\<close>

theorem writeToLog_levels_all_info:
  "snd (parseOutput decodeSample stdoutLevels None emptyResponse reqEcho) =
     [logf Info ''(P: %s C: %s) %s'' [ArgS ''p1'', ArgS ''echo'', ArgS ''a''],
      logf Info ''(P: %s C: %s) %s'' [ArgS ''p1'', ArgS ''echo'', ArgS ''b''],
      logf Info ''(P: %s C: %s) %s'' [ArgS ''p1'', ArgS ''echo'', ArgS ''c''],
      logf Info ''(P: %s C: %s) %s'' [ArgS ''p1'', ArgS ''echo'', ArgS ''d'']]"
  by code_simp

lemma Split_without_sep: "sep \<notin> set x \<Longrightarrow> Split x sep = [x]"
  by (induction x) auto

lemma Split_append_sep: "sep \<notin> set x \<Longrightarrow> Split (x @ sep # r) sep = x # Split r sep"
  by (induction x) auto

lemma Split_Join:
  "xs \<noteq> [] \<Longrightarrow> \<forall>x \<in> set xs. sep \<notin> set x \<Longrightarrow> Split (Join xs [sep]) sep = xs"
proof (induction xs "[sep]" rule: Join.induct)
  case 1
  then show ?case by simp
next
  case (2 x)
  then show ?case by (simp add: Split_without_sep)
next
  case (3 x y ys)
  then show ?case by (simp add: Split_append_sep)
qed

lemma parseOutput_json:
  assumes "Stderr result = []" and "''JSON'' \<in> set (stdoutLines result)"
  shows "case decode True (Join (nonMarkers (stdoutLines result)) [newline]) of
           None \<Rightarrow>
             Status (fst (parseOutput decode result None resp req)) = ''error'' \<and>
             StatusMessage (fst (parseOutput decode result None resp req)) =
               ''Command returned invalid JSON.'' \<and>
             Body (fst (parseOutput decode result None resp req)) = Body resp
         | Some v \<Rightarrow>
             Status (fst (parseOutput decode result None resp req)) = ''ok'' \<and>
             Body (fst (parseOutput decode result None resp req)) = BodyJSON v"
proof -
  from foldl_parseLine [of req "[]" resp "[]" "stdoutLines result"]
  obtain resp1 out1 where
    run: "foldl (parseLine req) ([], resp, []) (stdoutLines result) =
            (nonMarkers (stdoutLines result), resp1, out1)" and
    body: "Body resp1 = Body resp" and
    flag: "IsJSON resp1 = (IsJSON resp \<or> ''JSON'' \<in> set (stdoutLines result))"
    by auto
  from assms(2) flag have "IsJSON resp1" by simp
  with run body assms(1) show ?thesis
    by (simp add: parseOutput_def Let_def Decode_def UseNumber_def NewDecoder_def
        split: option.splits)
qed

text \<open>
  C7. \<^verbatim>\<open>parseOutput\<close> for an execution without engine error and with empty stderr
  whose stdout, with one trailing newline stripped and split at newlines, has a line
  that is exactly \<^verbatim>\<open>JSON\<close>. The text handed to the decoder is the retained lines
  joined with newlines: split at newlines it gives the retained lines back. It is
  decoded once, by a decoder with \<^verbatim>\<open>UseNumber\<close> on. When the decoder fails, the
  response has status \<^verbatim>\<open>error\<close>, the status message
  \<^verbatim>\<open>Command returned invalid JSON.\<close> and the body it came with; when it succeeds,
  the status is \<^verbatim>\<open>ok\<close> and the body is the decoded value. Numeric precision: with a
  library that, under \<^verbatim>\<open>UseNumber\<close>, returns an integer literal as the
  \<^verbatim>\<open>json.Number\<close> of its text, a retained text that is an integer literal ends up in
  the body as exactly that text, whatever the library does without \<^verbatim>\<open>UseNumber\<close>.
\<close>

theorem parseOutput_json_body:
  assumes "err = None" and "Stderr result = []"
    and "''JSON'' \<in> set (splitLines (Stdout result))"
  shows
    "(nonMarkers (splitLines (Stdout result)) \<noteq> [] \<longrightarrow>
        Split (Join (nonMarkers (splitLines (Stdout result))) [newline]) newline =
          nonMarkers (splitLines (Stdout result))) \<and>
     (case decode True (Join (nonMarkers (splitLines (Stdout result))) [newline]) of
        None \<Rightarrow>
          Status (fst (parseOutput decode result err resp req)) = ''error'' \<and>
          StatusMessage (fst (parseOutput decode result err resp req)) =
            ''Command returned invalid JSON.'' \<and>
          Body (fst (parseOutput decode result err resp req)) = Body resp
      | Some v \<Rightarrow>
          Status (fst (parseOutput decode result err resp req)) = ''ok'' \<and>
          Body (fst (parseOutput decode result err resp req)) = BodyJSON v) \<and>
     ((\<forall>n. isIntegerLiteral n \<longrightarrow> decode True n = Some (JNumber n)) \<and>
      isIntegerLiteral (Join (nonMarkers (splitLines (Stdout result))) [newline]) \<longrightarrow>
        Status (fst (parseOutput decode result err resp req)) = ''ok'' \<and>
        Body (fst (parseOutput decode result err resp req)) =
          BodyJSON (JNumber (Join (nonMarkers (splitLines (Stdout result))) [newline])))"
proof -
  from assms(3) have ne: "Stdout result \<noteq> []"
    by (rule JSON_line_nonempty)
  then have ls: "stdoutLines result = splitLines (Stdout result)"
    by (rule stdoutLines_nonempty)
  have "\<forall>x \<in> set (nonMarkers (stdoutLines result)). newline \<notin> set x"
    by (auto dest: stdoutLines_no_newline)
  then have rt: "nonMarkers (splitLines (Stdout result)) \<noteq> [] \<longrightarrow>
      Split (Join (nonMarkers (splitLines (Stdout result))) [newline]) newline =
        nonMarkers (splitLines (Stdout result))"
    by (simp add: ls Split_Join)
  from assms(3) ls have j: "''JSON'' \<in> set (stdoutLines result)"
    by simp
  note dec = parseOutput_json [OF assms(2) j, of decode resp req, unfolded ls]
  have num: "(\<forall>n. isIntegerLiteral n \<longrightarrow> decode True n = Some (JNumber n)) \<and>
      isIntegerLiteral (Join (nonMarkers (splitLines (Stdout result))) [newline]) \<longrightarrow>
        Status (fst (parseOutput decode result err resp req)) = ''ok'' \<and>
        Body (fst (parseOutput decode result err resp req)) =
          BodyJSON (JNumber (Join (nonMarkers (splitLines (Stdout result))) [newline]))"
    using dec unfolding assms(1) by auto
  from rt dec num show ?thesis
    unfolding assms(1) by blast
qed

theorem parseOutput_json_body_witness:
  "Stderr stdoutArray = [] \<and> ''JSON'' \<in> set (splitLines (Stdout stdoutArray)) \<and>
   Split (''[1,'' @ [newline] @ ''2]'') newline = [''[1,'', ''2]''] \<and>
   Status (fst (parseOutput decodeSample stdoutArray None emptyResponse reqEcho)) = ''ok'' \<and>
   Body (fst (parseOutput decodeSample stdoutArray None emptyResponse reqEcho)) =
     BodyJSON (JArray [JNumber ''1'', JNumber ''2'']) \<and>
   Stderr stdoutBig = [] \<and> ''JSON'' \<in> set (splitLines (Stdout stdoutBig)) \<and>
   isIntegerLiteral ''9007199254740993'' \<and>
   decodeSample False ''9007199254740993'' \<noteq> Some (JNumber ''9007199254740993'') \<and>
   Body (fst (parseOutput decodeSample stdoutBig None emptyResponse reqEcho)) =
     BodyJSON (JNumber ''9007199254740993'') \<and>
   Stderr stdoutBroken = [] \<and> ''JSON'' \<in> set (splitLines (Stdout stdoutBroken)) \<and>
   Status (fst (parseOutput decodeSample stdoutBroken None emptyResponse reqEcho)) = ''error'' \<and>
   StatusMessage (fst (parseOutput decodeSample stdoutBroken None emptyResponse reqEcho)) =
     ''Command returned invalid JSON.''"
proof -
  have a: "Stderr stdoutArray = []" "Stderr stdoutBig = []" "Stderr stdoutBroken = []"
    by (simp_all add: stdoutArray_def stdoutBig_def stdoutBroken_def)
  have b: "''JSON'' \<in> set (splitLines (Stdout stdoutArray))"
    "''JSON'' \<in> set (splitLines (Stdout stdoutBig))"
    "''JSON'' \<in> set (splitLines (Stdout stdoutBroken))"
    by (simp_all add: splitLines_stdoutArray splitLines_stdoutBig splitLines_stdoutBroken)
  have t: "Join [''[1,'', ''2]''] [newline] = ''[1,'' @ [newline] @ ''2]''"
    "Join [''9007199254740993''] [newline] = ''9007199254740993''"
    "Join [''{''] [newline] = ''{''"
    by simp_all
  have i: "isIntegerLiteral ''9007199254740993''"
    "\<not> isIntegerLiteral (''[1,'' @ [newline] @ ''2]'')" "\<not> isIntegerLiteral ''{''"
    by code_simp+
  have k: "\<forall>n. isIntegerLiteral n \<longrightarrow> decodeSample True n = Some (JNumber n)"
    by (simp add: decodeSample_def)
  have f: "decodeSample False ''9007199254740993'' \<noteq> Some (JNumber ''9007199254740993'')"
    using i(1) by (simp add: decodeSample_def)
  have d: "decodeSample True (''[1,'' @ [newline] @ ''2]'') =
             Some (JArray [JNumber ''1'', JNumber ''2''])"
    "decodeSample True ''{'' = None"
    using i(2,3) by (simp_all add: decodeSample_def newline_def)
  from parseOutput_json_body [OF refl a(1) b(1), of decodeSample emptyResponse reqEcho]
    parseOutput_json_body [OF refl a(2) b(2), of decodeSample emptyResponse reqEcho]
    parseOutput_json_body [OF refl a(3) b(3), of decodeSample emptyResponse reqEcho]
    a b t i k f d
  show ?thesis
    by (simp add: nonMarkers_stdoutArray nonMarkers_stdoutBig nonMarkers_stdoutBroken)
qed

text \<open>
  C8. An execution that returns without engine error and with non-empty stderr gives
  an error response whose status message is the stderr contents, and no body is derived
  from stdout. In \<^verbatim>\<open>parseOutput\<close> the status is \<^verbatim>\<open>error\<close>, the message is stderr and
  the body is the one the response came with. In \<^verbatim>\<open>executeCommand\<close> the response
  published on the reply topic has status \<^verbatim>\<open>error\<close>, stderr as message and no body.
\<close>

theorem stderr_gives_error_response:
  "(Stderr result \<noteq> [] \<longrightarrow>
      Status (fst (parseOutput decode result None resp req)) = ''error'' \<and>
      StatusMessage (fst (parseOutput decode result None resp req)) = Stderr result \<and>
      Body (fst (parseOutput decode result None resp req)) = Body resp) \<and>
   (Unmarshal env (Payload incoming) = Inr request \<and>
    GetBundle (Relay incoming) (BundleName request) = Some bndl \<and>
    engineForBundle env bndl incoming = Inr engine \<and>
    engine request bndl = (commandOutput, commandErrors, None) \<and>
    commandErrors \<noteq> [] \<longrightarrow>
      Bus (executeCommand env incoming) =
        Bus (Relay incoming) @
          [(TopicName (ReplyTo request),
            Response \<lparr>Status = ''error'', StatusMessage = commandErrors, Template = [],
                      IsJSON = False, Body = BodyNil\<rparr>)])"
proof -
  from foldl_parseLine [of req "[]" resp "[]" "stdoutLines result"]
  obtain resp1 out1 where
    run: "foldl (parseLine req) ([], resp, []) (stdoutLines result) =
            (filter (\<lambda>l. \<not> isMarker l) (stdoutLines result), resp1, out1)" and
    body: "Body resp1 = Body resp"
    by auto
  then have parse: "Stderr result \<noteq> [] \<longrightarrow>
      Status (fst (parseOutput decode result None resp req)) = ''error'' \<and>
      StatusMessage (fst (parseOutput decode result None resp req)) = Stderr result \<and>
      Body (fst (parseOutput decode result None resp req)) = Body resp"
    by (simp add: parseOutput_def)
  have exec: "Unmarshal env (Payload incoming) = Inr request \<and>
    GetBundle (Relay incoming) (BundleName request) = Some bndl \<and>
    engineForBundle env bndl incoming = Inr engine \<and>
    engine request bndl = (commandOutput, commandErrors, None) \<and>
    commandErrors \<noteq> [] \<longrightarrow>
      Bus (executeCommand env incoming) =
        Bus (Relay incoming) @
          [(TopicName (ReplyTo request),
            Response \<lparr>Status = ''error'', StatusMessage = commandErrors, Template = [],
                      IsJSON = False, Body = BodyNil\<rparr>)]"
    by (simp add: executeCommand_def Publish_def emptyResponse_def)
  from parse exec show ?thesis by blast
qed

theorem stderr_gives_error_response_witness:
  "Stderr stdoutBoom \<noteq> [] \<and>
   Status (fst (parseOutput decodeSample stdoutBoom None emptyResponse reqEcho)) = ''error'' \<and>
   StatusMessage (fst (parseOutput decodeSample stdoutBoom None emptyResponse reqEcho)) = ''boom'' \<and>
   Body (fst (parseOutput decodeSample stdoutBoom None emptyResponse reqEcho)) = BodyNil \<and>
   engineSample reqFail echoBundle = (''ignored'' @ [newline], ''boom'', None) \<and>
   Bus (executeCommand envSample (incomingSample ''run-fail'')) =
     [(TopicName ''r1'',
       Response \<lparr>Status = ''error'', StatusMessage = ''boom'', Template = [],
                 IsJSON = False, Body = BodyNil\<rparr>)]"
proof -
  have a: "Stderr stdoutBoom \<noteq> []"
    by (simp add: stdoutBoom_def)
  have u: "Unmarshal envSample (Payload (incomingSample ''run-fail'')) = Inr reqFail"
    by (simp add: envSample_def incomingSample_def unmarshalSample_def)
  have g: "GetBundle (Relay (incomingSample ''run-fail'')) (BundleName reqFail) = Some echoBundle"
    by (simp add: GetBundle_def incomingSample_def relaySample_def echoMap_def BundleName_def
        reqFail_def)
  have e: "engineForBundle envSample echoBundle (incomingSample ''run-fail'') = Inr engineSample"
    by (simp add: engineForBundle_def envSample_def echoBundle_def IsDocker_def)
  have x: "engineSample reqFail echoBundle = (''ignored'' @ [newline], ''boom'', None)"
    by (simp add: engineSample_def reqFail_def)
  have b: "Bus (Relay (incomingSample ''run-fail'')) = []"
    by (simp add: incomingSample_def relaySample_def New_def)
  note inst = stderr_gives_error_response [where result = stdoutBoom and decode = decodeSample
      and resp = emptyResponse and req = reqEcho and env = envSample
      and incoming = "incomingSample ''run-fail''" and request = reqFail
      and bndl = echoBundle and engine = engineSample
      and commandOutput = "''ignored'' @ [newline]" and commandErrors = "''boom''"]
  from inst a u g e x b
  show ?thesis
    by (simp add: stdoutBoom_def emptyResponse_def reqFail_def)
qed

subsection \<open>The worker\<close>

text \<open>
  C6, as the source has it. When the payload does not decode, \<^verbatim>\<open>executeCommand\<close>
  writes the error to the log and returns: nothing is published and nothing else
  changes. When the payload decodes, the request is not examined further: whatever its
  bundle name and reply topic are, also empty ones, one response is published on the
  reply topic.
\<close>

theorem executeCommand_drops_only_undecodable:
  "(Unmarshal env (Payload incoming) = Inl e \<longrightarrow>
      executeCommand env incoming =
        (Relay incoming)\<lparr>logged := logged (Relay incoming) @
          [logf Error ''Ignoring malformed execution request: %s.'' [ArgS e]]\<rparr>) \<and>
   (Unmarshal env (Payload incoming) = Inr request \<longrightarrow>
      (\<exists>response. Bus (executeCommand env incoming) =
         Bus (Relay incoming) @ [(TopicName (ReplyTo request), Response response)]))"
  by (simp add: executeCommand_def logr_def Publish_def Let_def)

theorem executeCommand_drops_only_undecodable_witness:
  "Unmarshal envSample (Payload (incomingSample ''garbage'')) = Inl ''invalid character'' \<and>
   Bus (executeCommand envSample (incomingSample ''garbage'')) = [] \<and>
   logged (executeCommand envSample (incomingSample ''garbage'')) =
     [logf Error ''Ignoring malformed execution request: %s.'' [ArgS ''invalid character'']] \<and>
   Unmarshal envSample (Payload (incomingSample ''run-echo'')) = Inr reqEcho \<and>
   (\<exists>response. Bus (executeCommand envSample (incomingSample ''run-echo'')) =
      [(TopicName ''r1'', Response response)])"
proof -
  have u: "Unmarshal envSample (Payload (incomingSample ''garbage'')) = Inl ''invalid character''"
    by (simp add: envSample_def incomingSample_def unmarshalSample_def)
  have v: "Unmarshal envSample (Payload (incomingSample ''run-echo'')) = Inr reqEcho"
    by (simp add: envSample_def incomingSample_def unmarshalSample_def)
  have b: "Bus (Relay (incomingSample p)) = []" and l: "logged (Relay (incomingSample p)) = []"
    for p
    by (simp_all add: incomingSample_def relaySample_def New_def)
  from executeCommand_drops_only_undecodable
      [of envSample "incomingSample ''garbage''" "''invalid character''" reqEcho]
    executeCommand_drops_only_undecodable
      [of envSample "incomingSample ''run-echo''" "''invalid character''" reqEcho]
    u v b l
  show ?thesis
    by (simp add: reqEcho_def)
qed

text \<open>
  The claim C6 as stated also has a decodable message with an empty bundle name dropped
  without a response. The payload \<^verbatim>\<open>no-bundle\<close> decodes to a request whose bundle name
  is empty; the worker answers it on \<^verbatim>\<open>r1\<close> with the unknown-bundle error.
\<close>

theorem executeCommand_empty_bundleName_published:
  "Unmarshal envSample (Payload (incomingSample ''no-bundle'')) = Inr reqNoBundle \<and>
   BundleName reqNoBundle = [] \<and>
   Bus (Relay (incomingSample ''no-bundle'')) = [] \<and>
   Bus (executeCommand envSample (incomingSample ''no-bundle'')) =
     [(TopicName ''r1'',
       Response \<lparr>Status = ''error'', StatusMessage = ''Unknown command bundle '',
                 Template = [], IsJSON = False, Body = BodyNil\<rparr>)]"
  by (simp add: executeCommand_def envSample_def incomingSample_def unmarshalSample_def
      reqNoBundle_def BundleName_def GetBundle_def relaySample_def New_def echoMap_def
      Publish_def emptyResponse_def)

end
